theory Spec2Isabelle
  imports Main "HOL-Library.Sublist"
begin

section \<open>JavaScript values and the platform functions the script calls\<close>

text \<open>
  \<^verbatim>\<open>script.js\<close> wires three listeners to a page: a click listener on every action
  button, a submit listener on the report form and a submit listener on the
  recent-hazards form. The listeners read and write the page and talk to the server through
  \<^verbatim>\<open>fetch\<close>. The model below passes the page explicitly, takes what \<^verbatim>\<open>fetch\<close> settles
  to as an argument, and writes every exception the script can meet as a value. The limits
  of an engine (stack depth, memory) are outside the model.

  Strings are lists of 8-bit characters holding UTF-8, so the two non-ASCII characters of the
  list-item template occupy three characters each. Values that arrive in a response are
  the result of \<^verbatim>\<open>response.json()\<close>. A number is kept as the string that
  \<^verbatim>\<open>Number::toString\<close> gives for the double it was parsed to (\<^verbatim>\<open>3\<close>,
  \<^verbatim>\<open>2.5\<close>, \<^verbatim>\<open>1e+21\<close>, \<^verbatim>\<open>-0.5\<close>, \<^verbatim>\<open>Infinity\<close>): the string
  determines the double up to the sign of zero, and the script sees a number only through
  this string, through its truthiness and through its sign.
\<close>

datatype json =
    JNull
  | JBool bool
  | JNum string
  | JStr string
  | JArr "json list"
  | JObj "(string \<times> json) list"

text \<open>The exception of the script's own statements: reading a property of \<^verbatim>\<open>null\<close>,
  calling what is not a function, or converting to a primitive an object that cannot be
  converted. A rejected \<^verbatim>\<open>fetch\<close> and a body that is not JSON are
  part of what the network hands back, further down.\<close>

datatype js_error = TypeError

text \<open>Sequencing of steps that may throw: the first exception ends the computation.\<close>

definition bind :: "js_error + 'a \<Rightarrow> ('a \<Rightarrow> js_error + 'b) \<Rightarrow> js_error + 'b" where
  "bind m f = (case m of Inl e \<Rightarrow> Inl e | Inr x \<Rightarrow> f x)"

fun sequence :: "(js_error + 'a) list \<Rightarrow> js_error + 'a list" where
  "sequence [] = Inr []"
| "sequence (m # ms) = bind m (\<lambda>x. bind (sequence ms) (\<lambda>xs. Inr (x # xs)))"

fun join :: "string \<Rightarrow> string list \<Rightarrow> string" where
  "join sep [] = []"
| "join sep [x] = x"
| "join sep (x # y # ys) = x @ sep @ join sep (y # ys)"

function show_nat :: "nat \<Rightarrow> string" where
  "show_nat n =
     (if n < 10 then [''0123456789'' ! n]
      else show_nat (n div 10) @ [''0123456789'' ! (n mod 10)])"
  by pat_completeness auto
termination
  by (relation "measure id") auto

declare show_nat.simps [simp del]

text \<open>The length of a string in UTF-16 code units, from its UTF-8 bytes: one unit for every
  byte that is not a continuation byte, and one more for the lead byte of a four-byte
  sequence.\<close>

definition utf16_length :: "string \<Rightarrow> nat" where
  "utf16_length s =
     length (filter (\<lambda>c. \<not> (128 \<le> (of_char c :: nat) \<and> (of_char c :: nat) < 192)) s)
     + length (filter (\<lambda>c. 240 \<le> (of_char c :: nat)) s)"

text \<open>
  Reading a property \<^verbatim>\<open>v.name\<close> of a parsed value. The result \<open>Inr None\<close> is
  \<^verbatim>\<open>undefined\<close>. Reading from \<^verbatim>\<open>null\<close> throws. Arrays and strings have a
  \<^verbatim>\<open>length\<close>; a parsed object holds each key once, in insertion order. The script
  reads only the names \<^verbatim>\<open>error\<close>, \<^verbatim>\<open>hazards\<close>, \<^verbatim>\<open>length\<close> and the seven
  fields of a hazard record, none of which is found on a prototype.
\<close>

fun get_prop :: "json \<Rightarrow> string \<Rightarrow> js_error + json option" where
  "get_prop JNull name = Inl TypeError"
| "get_prop (JObj kvs) name = Inr (map_of kvs name)"
| "get_prop (JArr xs) name =
     Inr (if name = ''length'' then Some (JNum (show_nat (length xs))) else None)"
| "get_prop (JStr s) name =
     Inr (if name = ''length'' then Some (JNum (show_nat (utf16_length s))) else None)"
| "get_prop (JBool b) name = Inr None"
| "get_prop (JNum t) name = Inr None"

text \<open>The value of \<^verbatim>\<open>h.name\<close> where the read does not throw.\<close>

definition record_field :: "json \<Rightarrow> string \<Rightarrow> json option" where
  "record_field h name = (case get_prop h name of Inr v \<Rightarrow> v | Inl e \<Rightarrow> None)"

text \<open>Truthiness, as \<^verbatim>\<open>if\<close>, \<^verbatim>\<open>&&\<close>, \<^verbatim>\<open>||\<close> and \<^verbatim>\<open>?:\<close> test it.\<close>

fun truthy :: "json option \<Rightarrow> bool" where
  "truthy None = False"
| "truthy (Some JNull) = False"
| "truthy (Some (JBool b)) = b"
| "truthy (Some (JNum t)) = (t \<noteq> ''0'' \<and> t \<noteq> ''NaN'')"
| "truthy (Some (JStr s)) = (s \<noteq> [])"
| "truthy (Some (JArr xs)) = True"
| "truthy (Some (JObj kvs)) = True"

subsection \<open>Conversion to string\<close>

text \<open>
  \<^verbatim>\<open>ToString\<close> on a parsed value, as string concatenation and template literals apply
  it. An array joins its elements with commas, \<^verbatim>\<open>null\<close> elements giving the empty
  string. An object is converted by \<^verbatim>\<open>ToPrimitive\<close>, which calls \<^verbatim>\<open>toString\<close> and
  \<^verbatim>\<open>valueOf\<close> where they are functions: a parsed object inherits both, and gives
  \<^verbatim>\<open>[object Object]\<close>, unless it has a property of its own named \<^verbatim>\<open>toString\<close>,
  which is never a function and hides the inherited one; then no method returns a
  primitive and the conversion throws. The outcome is the same for the three hints of
  \<^verbatim>\<open>ToPrimitive\<close>.
\<close>

fun ToString :: "json \<Rightarrow> js_error + string" where
  "ToString JNull = Inr ''null''"
| "ToString (JBool b) = Inr (if b then ''true'' else ''false'')"
| "ToString (JNum t) = Inr t"
| "ToString (JStr s) = Inr s"
| "ToString (JArr xs) =
     bind (sequence (map (\<lambda>x. if x = JNull then Inr [] else ToString x) xs))
       (\<lambda>ss. Inr (join '','' ss))"
| "ToString (JObj kvs) =
     (if map_of kvs ''toString'' = None then Inr ''[object Object]'' else Inl TypeError)"

text \<open>A template literal \<^verbatim>\<open>${e}\<close>, where \<open>e\<close> may be \<^verbatim>\<open>undefined\<close>.\<close>

definition interpolate :: "json option \<Rightarrow> js_error + string" where
  "interpolate v = (case v of None \<Rightarrow> Inr ''undefined'' | Some x \<Rightarrow> ToString x)"

text \<open>The values whose conversion to string does not throw: those that hold no object with a
  property of its own named \<^verbatim>\<open>toString\<close>, at the top or inside arrays.\<close>

fun printable :: "json \<Rightarrow> bool" where
  "printable (JArr xs) = list_all printable xs"
| "printable (JObj kvs) = (map_of kvs ''toString'' = None)"
| "printable JNull = True"
| "printable (JBool b) = True"
| "printable (JNum t) = True"
| "printable (JStr s) = True"

text \<open>What a template literal shows for \<open>v\<close>, where the conversion does not throw.\<close>

definition rendered :: "json option \<Rightarrow> string" where
  "rendered v = (case interpolate v of Inr s \<Rightarrow> s | Inl e \<Rightarrow> [])"

subsection \<open>\<^verbatim>\<open>String.prototype.trim\<close>\<close>

text \<open>
  The white space and line terminators of ECMAScript, each as its UTF-8 encoding: tab, line
  feed, vertical tab, form feed, carriage return, space, U+00A0, U+1680, U+2000 to U+200A,
  U+2028, U+2029, U+202F, U+205F, U+3000 and U+FEFF.
\<close>

definition js_whitespace :: "string list" where
  "js_whitespace =
     map (\<lambda>c. [c]) [CHR 0x09, CHR 0x0A, CHR 0x0B, CHR 0x0C, CHR 0x0D, CHR 0x20]
     @ [[CHR 0xC2, CHR 0xA0], [CHR 0xE1, CHR 0x9A, CHR 0x80]]
     @ map (\<lambda>c. [CHR 0xE2, CHR 0x80, c])
         [CHR 0x80, CHR 0x81, CHR 0x82, CHR 0x83, CHR 0x84, CHR 0x85, CHR 0x86, CHR 0x87,
          CHR 0x88, CHR 0x89, CHR 0x8A, CHR 0xA8, CHR 0xA9, CHR 0xAF]
     @ [[CHR 0xE2, CHR 0x81, CHR 0x9F], [CHR 0xE3, CHR 0x80, CHR 0x80],
        [CHR 0xEF, CHR 0xBB, CHR 0xBF]]"

text \<open>\<open>strip ws s\<close> removes from the front of \<open>s\<close> every leading occurrence of a sequence in \<open>ws\<close>.\<close>

function strip :: "string list \<Rightarrow> string \<Rightarrow> string" where
  "strip ws s =
     (case List.find (\<lambda>w. w \<noteq> [] \<and> prefix w s) ws of
        None \<Rightarrow> s
      | Some w \<Rightarrow> strip ws (drop (length w) s))"
  by pat_completeness auto
termination
proof (relation "measure (\<lambda>(ws, s). length s)")
  show "wf (measure (\<lambda>(ws, s). length s))" by simp
next
  fix ws :: "string list" and s w :: string
  assume "List.find (\<lambda>w. w \<noteq> [] \<and> prefix w s) ws = Some w"
  then have "w \<noteq> []" and "prefix w s"
    by (auto simp: find_Some_iff)
  then have "0 < length w" and "length w \<le> length s"
    by (auto simp: prefix_length_le)
  then have "length s - length w < length s"
    by arith
  then show "((ws, drop (length w) s), (ws, s)) \<in> measure (\<lambda>(ws, s). length s)"
    by simp
qed

definition trimStart :: "string \<Rightarrow> string" where
  "trimStart s = strip js_whitespace s"

definition trimEnd :: "string \<Rightarrow> string" where
  "trimEnd s = rev (strip (map rev js_whitespace) (rev s))"

definition trim :: "string \<Rightarrow> string" where
  "trim s = trimEnd (trimStart s)"

subsection \<open>\<^verbatim>\<open>JSON.stringify\<close> and \<^verbatim>\<open>encodeURIComponent\<close>\<close>

definition hex_digit :: "bool \<Rightarrow> nat \<Rightarrow> char" where
  "hex_digit upper n =
     (if upper then ''0123456789ABCDEF'' else ''0123456789abcdef'') ! (n mod 16)"

definition hex_byte :: "bool \<Rightarrow> char \<Rightarrow> string" where
  "hex_byte upper c = [hex_digit upper (of_char c div 16), hex_digit upper (of_char c)]"

text \<open>
  \<^verbatim>\<open>QuoteJSONString\<close>: the quotation mark and the backslash are escaped with a backslash,
  the five control characters with a short escape take it, every other character below
  U+0020 becomes \<^verbatim>\<open>\u00xx\<close>, and everything else stands for itself.
\<close>

definition json_escape :: "char \<Rightarrow> string" where
  "json_escape c =
     (if c = CHR 0x08 then [CHR 0x5C, CHR ''b'']
      else if c = CHR 0x09 then [CHR 0x5C, CHR ''t'']
      else if c = CHR 0x0A then [CHR 0x5C, CHR ''n'']
      else if c = CHR 0x0C then [CHR 0x5C, CHR ''f'']
      else if c = CHR 0x0D then [CHR 0x5C, CHR ''r'']
      else if c = CHR 0x22 then [CHR 0x5C, CHR 0x22]
      else if c = CHR 0x5C then [CHR 0x5C, CHR 0x5C]
      else if (of_char c :: nat) < 32 then [CHR 0x5C, CHR ''u'', CHR ''0'', CHR ''0''] @ hex_byte False c
      else [c])"

definition quote :: "string \<Rightarrow> string" where
  "quote s = [CHR 0x22] @ concat (map json_escape s) @ [CHR 0x22]"

fun JSON_stringify :: "json \<Rightarrow> string" where
  "JSON_stringify JNull = ''null''"
| "JSON_stringify (JBool b) = (if b then ''true'' else ''false'')"
| "JSON_stringify (JNum t) =
     (if t \<in> {''Infinity'', ''-Infinity'', ''NaN''} then ''null'' else t)"
| "JSON_stringify (JStr s) = quote s"
| "JSON_stringify (JArr xs) = ''['' @ join '','' (map JSON_stringify xs) @ '']''"
| "JSON_stringify (JObj kvs) =
     ''{'' @ join '','' (map (\<lambda>kv. quote (fst kv) @ '':'' @ JSON_stringify (snd kv)) kvs) @ ''}''"

text \<open>
  \<^verbatim>\<open>encodeURIComponent\<close>: letters, digits and \<^verbatim>\<open>- _ . ! ~ * ' ( )\<close> stay, every other
  byte of the UTF-8 encoding becomes \<^verbatim>\<open>%XX\<close>.
\<close>

definition uri_unreserved :: "char \<Rightarrow> bool" where
  "uri_unreserved c =
     (let n = (of_char c :: nat) in
        (65 \<le> n \<and> n \<le> 90) \<or> (97 \<le> n \<and> n \<le> 122) \<or> (48 \<le> n \<and> n \<le> 57)
        \<or> c \<in> set ''-_.!~*()'' \<or> c = CHR 0x27)"

definition encodeURIComponent :: "string \<Rightarrow> string" where
  "encodeURIComponent s =
     concat (map (\<lambda>c. if uri_unreserved c then [c] else ''%'' @ hex_byte True c) s)"

section \<open>The page\<close>

text \<open>
  Modelled from the spec: the page markup, which is not among the sources. Section 6 of the
  specification lists the ids the script looks up (\<^verbatim>\<open>section-report\<close>,
  \<^verbatim>\<open>section-recent\<close>, \<^verbatim>\<open>section-predict\<close>, \<^verbatim>\<open>form-report\<close>,
  \<^verbatim>\<open>submit-status\<close>, the six fields of the report form, \<^verbatim>\<open>form-recent\<close>,
  \<^verbatim>\<open>check-location\<close>, \<^verbatim>\<open>hazard-results\<close>) and the buttons of class
  \<^verbatim>\<open>action-btn\<close> tagged with \<^verbatim>\<open>data-section\<close>. The page is the script's
  parameter: every id is present, the six fields belong to the report form, and buttons,
  panels and the two output regions are different elements.

  An element carries its \<^verbatim>\<open>classList\<close>, the list of its class tokens without
  repetition.
\<close>

record element =
  classList :: "string list"

definition classList_add :: "string \<Rightarrow> 'a element_scheme \<Rightarrow> 'a element_scheme" where
  "classList_add c e = (if c \<in> set (classList e) then e else e\<lparr>classList := classList e @ [c]\<rparr>)"

definition classList_remove :: "string \<Rightarrow> 'a element_scheme \<Rightarrow> 'a element_scheme" where
  "classList_remove c e = e\<lparr>classList := removeAll c (classList e)\<rparr>"

definition has_class :: "string \<Rightarrow> 'a element_scheme \<Rightarrow> bool" where
  "has_class c e = (c \<in> set (classList e))"

text \<open>An action button; \<open>data_section\<close> is \<open>None\<close> when the attribute is missing
  (\<^verbatim>\<open>getAttribute\<close> returns \<^verbatim>\<open>null\<close>).\<close>

record button = element +
  data_section :: "string option"

text \<open>The status line of the report form.\<close>

record status_region = element +
  textContent :: string

text \<open>A text field, select or text area, and a checkbox, each with the default that
  \<^verbatim>\<open>form.reset()\<close> restores.\<close>

record control =
  val :: string
  defaultValue :: string

record checkbox =
  checked :: bool
  defaultChecked :: bool

record report_form =
  location_name :: control
  hazard_type :: control
  accessibility :: control
  user_type :: control
  temporary :: checkbox
  description :: control

text \<open>The children of the results region: a text node, or the list the script builds, given
  by its \<^verbatim>\<open>className\<close> and the \<^verbatim>\<open>innerHTML\<close> assigned to each of its items. An item
  is kept as the markup string assigned to it, the page being an HTML document, where the
  assignment does not throw; the script does not escape the text of a record, and what
  the parser of the browser makes of record text that is itself markup is outside the
  model.\<close>

datatype li = Li (innerHTML: string)

datatype node = TextNode string | Ul (className: string) (items: "li list")

record dom =
  actionButtons :: "button list"
  section_report :: element
  section_recent :: element
  section_predict :: element
  formReport :: report_form
  submitStatus :: status_region
  check_location :: control
  hazardResults :: "node list"

text \<open>Assigning \<^verbatim>\<open>textContent\<close> replaces the children by one text node, or by none for
  the empty string.\<close>

definition set_textContent :: "string \<Rightarrow> node list" where
  "set_textContent s = (if s = [] then [] else [TextNode s])"

section \<open>The network\<close>

record request =
  url :: string
  http_method :: string
  headers :: "(string \<times> string) list"
  body :: "string option"

text \<open>A response: its status code, and what \<^verbatim>\<open>response.json()\<close> resolves to,
  \<open>None\<close> when the body is not JSON and the promise rejects.\<close>

record response =
  status :: nat
  json_body :: "json option"

definition ok :: "response \<Rightarrow> bool" where
  "ok r = (200 \<le> status r \<and> status r \<le> 299)"

text \<open>What the promise returned by \<^verbatim>\<open>fetch\<close> settles to.\<close>

datatype fetch_result = Rejected | Resolved response

text \<open>What running a listener to its end leaves behind: the page, the requests it sent, and
  whether it called \<^verbatim>\<open>event.preventDefault()\<close>.\<close>

record run =
  page :: dom
  requests :: "request list"
  defaultPrevented :: bool

section \<open>Section switching\<close>

definition sections :: "dom \<Rightarrow> (string \<times> element) list" where
  "sections d =
     [(''report'', section_report d), (''recent'', section_recent d),
      (''predict'', section_predict d)]"

text \<open>The body of the loop over \<^verbatim>\<open>Object.entries(sections)\<close>; \<^verbatim>\<open>key === target\<close>
  compares a string with a string or \<^verbatim>\<open>null\<close>.\<close>

definition toggle_section :: "string option \<Rightarrow> string \<Rightarrow> element \<Rightarrow> element" where
  "toggle_section target key sectionEl =
     (if Some key = target then classList_add ''active'' sectionEl
      else classList_remove ''active'' sectionEl)"

text \<open>The click listener of the button at position \<open>i\<close> of \<^verbatim>\<open>actionButtons\<close>. A position
  beyond the list is no button and has no listener.\<close>

definition click :: "nat \<Rightarrow> dom \<Rightarrow> dom" where
  "click i d =
     (if i < length (actionButtons d) then
        let target = data_section (actionButtons d ! i);
            bs = map (classList_remove ''active'') (actionButtons d);
            bs' = bs[i := classList_add ''active'' (bs ! i)]
        in d\<lparr>actionButtons := bs',
             section_report := toggle_section target ''report'' (section_report d),
             section_recent := toggle_section target ''recent'' (section_recent d),
             section_predict := toggle_section target ''predict'' (section_predict d)\<rparr>
      else d)"

text \<open>The positions of the buttons that carry \<^verbatim>\<open>active\<close>, and the names of the panels
  that do.\<close>

definition active_buttons :: "dom \<Rightarrow> nat list" where
  "active_buttons d =
     filter (\<lambda>j. has_class ''active'' (actionButtons d ! j)) [0..<length (actionButtons d)]"

definition active_sections :: "dom \<Rightarrow> string list" where
  "active_sections d = map fst (filter (\<lambda>kv. has_class ''active'' (snd kv)) (sections d))"

section \<open>The report form\<close>

text \<open>The object built from the six fields when the form is submitted.\<close>

definition payload :: "dom \<Rightarrow> json" where
  "payload d =
     JObj [(''location_name'', JStr (trim (val (location_name (formReport d))))),
           (''hazard_type'', JStr (trim (val (hazard_type (formReport d))))),
           (''accessibility'', JStr (val (accessibility (formReport d)))),
           (''user_type'', JStr (val (user_type (formReport d)))),
           (''temporary'', JBool (checked (temporary (formReport d)))),
           (''description'', JStr (trim (val (description (formReport d)))))]"

definition report_request :: "dom \<Rightarrow> request" where
  "report_request d =
     \<lparr>url = ''/api/report'', http_method = ''POST'',
      headers = [(''Content-Type'', ''application/json'')],
      body = Some (JSON_stringify (payload d))\<rparr>"

text \<open>The two assignments before the request: the pending text, and \<^verbatim>\<open>className\<close> set to
  the single token \<^verbatim>\<open>status\<close>.\<close>

definition report_pending :: "dom \<Rightarrow> dom" where
  "report_pending d =
     d\<lparr>submitStatus := (submitStatus d)\<lparr>textContent := ''Submitting...'', classList := [''status'']\<rparr>\<rparr>"

definition network_error_message :: string where
  "network_error_message = ''Network error submitting hazard.''"

definition success_message :: string where
  "success_message = ''Thank you! Your report has been saved and will help train the model.''"

text \<open>The text of the branch for a response that is not ok:
  \<^verbatim>\<open>"Error: " + (data.error || "Failed to submit")\<close>, given what \<^verbatim>\<open>data.error\<close>
  evaluated to. The concatenation throws when the value cannot be converted to a string.\<close>

definition server_error_message :: "json option \<Rightarrow> js_error + string" where
  "server_error_message err =
     (if truthy err then bind (interpolate err) (\<lambda>s. Inr (''Error: '' @ s))
      else Inr (''Error: '' @ ''Failed to submit''))"

text \<open>The \<^verbatim>\<open>catch\<close> block.\<close>

definition report_catch :: "dom \<Rightarrow> dom" where
  "report_catch d =
     d\<lparr>submitStatus :=
         classList_add ''error'' ((submitStatus d)\<lparr>textContent := network_error_message\<rparr>)\<rparr>"

text \<open>\<^verbatim>\<open>formReport.reset()\<close>: every field of the form returns to its default.\<close>

definition reset_field :: "control \<Rightarrow> control" where
  "reset_field f = f\<lparr>val := defaultValue f\<rparr>"

definition reset_checkbox :: "checkbox \<Rightarrow> checkbox" where
  "reset_checkbox c = c\<lparr>checked := defaultChecked c\<rparr>"

definition reset :: "report_form \<Rightarrow> report_form" where
  "reset f =
     \<lparr>location_name = reset_field (location_name f),
      hazard_type = reset_field (hazard_type f),
      accessibility = reset_field (accessibility f),
      user_type = reset_field (user_type f),
      temporary = reset_checkbox (temporary f),
      description = reset_field (description f)\<rparr>"

definition report_success :: "dom \<Rightarrow> dom" where
  "report_success d =
     (let d1 = d\<lparr>submitStatus :=
                  classList_add ''success'' ((submitStatus d)\<lparr>textContent := success_message\<rparr>)\<rparr>;
          d2 = d1\<lparr>formReport := reset (formReport d1)\<rparr>
      in d2\<lparr>formReport := (formReport d2)\<lparr>temporary := (temporary (formReport d2))\<lparr>checked := True\<rparr>\<rparr>\<rparr>)"

definition report_rejected :: "json \<Rightarrow> dom \<Rightarrow> dom" where
  "report_rejected data d =
     (case bind (get_prop data ''error'') server_error_message of
        Inl e \<Rightarrow> report_catch d
      | Inr message \<Rightarrow>
          d\<lparr>submitStatus :=
              classList_add ''error'' ((submitStatus d)\<lparr>textContent := message\<rparr>)\<rparr>)"

text \<open>The \<^verbatim>\<open>try\<close> statement, from the point where the promise of \<^verbatim>\<open>fetch\<close> settles:
  the body is parsed first, the status is looked at afterwards.\<close>

definition report_settle :: "fetch_result \<Rightarrow> dom \<Rightarrow> dom" where
  "report_settle res d =
     (case res of
        Rejected \<Rightarrow> report_catch d
      | Resolved r \<Rightarrow>
          (case json_body r of
             None \<Rightarrow> report_catch d
           | Some data \<Rightarrow> if \<not> ok r then report_rejected data d else report_success d))"

text \<open>The submit listener of the report form, run to its end.\<close>

definition formReport_submit :: "dom \<Rightarrow> fetch_result \<Rightarrow> run" where
  "formReport_submit d res =
     (let d1 = report_pending d
      in \<lparr>page = report_settle res d1, requests = [report_request d1], defaultPrevented = True\<rparr>)"

section \<open>The recent-hazards form\<close>

definition bullet :: string where
  "bullet = [CHR 0xE2, CHR 0x80, CHR 0xA2]"

definition en_dash :: string where
  "en_dash = [CHR 0xE2, CHR 0x80, CHR 0x93]"

text \<open>A substitution \<^verbatim>\<open>${h.name}\<close>: the read throws when \<open>h\<close> is \<^verbatim>\<open>null\<close>, the
  conversion when the value cannot be converted to a string.\<close>

definition substitute :: "json \<Rightarrow> string \<Rightarrow> js_error + string" where
  "substitute h name = bind (get_prop h name) interpolate"

text \<open>The last operand of the concatenation,
  \<^verbatim>\<open>(h.description ? `<br><em>${h.description}</em>` : "")\<close>.\<close>

definition description_markup :: "json \<Rightarrow> js_error + string" where
  "description_markup h =
     bind (get_prop h ''description'') (\<lambda>description.
       if truthy description
       then bind (substitute h ''description'') (\<lambda>s. Inr (''<br><em>'' @ s @ ''</em>''))
       else Inr [])"

text \<open>The markup assigned to \<^verbatim>\<open>li.innerHTML\<close> for the record \<open>h\<close>.\<close>

definition li_markup :: "json \<Rightarrow> js_error + string" where
  \<open>li_markup h =
     bind (substitute h ''day'') (\<lambda>day.
     bind (substitute h ''timestamp'') (\<lambda>timestamp.
     bind (substitute h ''location_name'') (\<lambda>location_name.
     bind (substitute h ''hazard_type'') (\<lambda>hazard_type.
     bind (substitute h ''accessibility'') (\<lambda>accessibility.
     bind (substitute h ''user_type'') (\<lambda>user_type.
     bind (description_markup h) (\<lambda>description.
       Inr (''<span class="pill"><span class="dot"></span>'' @ day @ '' '' @ bullet
              @ '' '' @ timestamp @ ''</span><br>''
            @ ''<strong>'' @ location_name @ ''</strong> '' @ en_dash @ '' ''
              @ hazard_type @ '' ''
            @ ''(accessibility: '' @ accessibility @ ''/5, user: '' @ user_type @ '')''
            @ description))))))))\<close>

text \<open>The records the template can be filled in for: not \<^verbatim>\<open>null\<close>, and every field the
  template shows is missing or printable. (A description that is not shown is falsy, and
  the falsy values are printable.)\<close>

definition shown_fields :: "string list" where
  "shown_fields =
     [''day'', ''timestamp'', ''location_name'', ''hazard_type'', ''accessibility'',
      ''user_type'', ''description'']"

definition field_ok :: "json \<Rightarrow> string \<Rightarrow> bool" where
  "field_ok h name = (case record_field h name of None \<Rightarrow> True | Some v \<Rightarrow> printable v)"

definition renderable :: "json \<Rightarrow> bool" where
  "renderable h = (h \<noteq> JNull \<and> list_all (field_ok h) shown_fields)"

text \<open>The loop \<^verbatim>\<open>data.hazards.forEach\<close>: it stops at the first record that throws.\<close>

fun render_items :: "json list \<Rightarrow> js_error + li list" where
  "render_items [] = Inr []"
| "render_items (h # hs) =
     bind (li_markup h) (\<lambda>m. bind (render_items hs) (\<lambda>lis. Inr (Li m # lis)))"

text \<open>
  \<^verbatim>\<open>x > 0\<close> for a parsed value \<open>x\<close>. \<^verbatim>\<open>undefined\<close> converts to NaN, \<^verbatim>\<open>null\<close>
  to 0, \<^verbatim>\<open>true\<close> to 1. Arrays and objects are first converted to a primitive, which is
  their string and throws where \<^verbatim>\<open>ToString\<close> does; \<^verbatim>\<open>[object Object]\<close> is no
  number. Strings convert by the numeric-string grammar into floating point, which
  \<open>positive\<close> stands for: it tells whether a string converts to a number above zero.
\<close>

fun greater_zero :: "(string \<Rightarrow> bool) \<Rightarrow> json option \<Rightarrow> js_error + bool" where
  "greater_zero positive None = Inr False"
| "greater_zero positive (Some JNull) = Inr False"
| "greater_zero positive (Some (JBool b)) = Inr b"
| "greater_zero positive (Some (JNum t)) =
     Inr (t \<noteq> ''0'' \<and> t \<noteq> ''NaN'' \<and> \<not> prefix ''-'' t)"
| "greater_zero positive (Some (JStr s)) = Inr (positive s)"
| "greater_zero positive (Some (JArr xs)) =
     bind (ToString (JArr xs)) (\<lambda>s. Inr (positive s))"
| "greater_zero positive (Some (JObj kvs)) =
     bind (ToString (JObj kvs)) (\<lambda>s. Inr False)"

definition recent_catch :: "dom \<Rightarrow> dom" where
  "recent_catch d = d\<lparr>hazardResults := set_textContent ''Error fetching hazards.''\<rparr>"

text \<open>The condition \<^verbatim>\<open>data.hazards && data.hazards.length > 0\<close>, given what
  \<^verbatim>\<open>data.hazards\<close> evaluated to.\<close>

definition has_hazards :: "(string \<Rightarrow> bool) \<Rightarrow> json option \<Rightarrow> js_error + bool" where
  "has_hazards positive hazards =
     (case hazards of
        None \<Rightarrow> Inr False
      | Some hz \<Rightarrow>
          if truthy (Some hz)
          then bind (get_prop hz ''length'') (greater_zero positive)
          else Inr False)"

text \<open>The list is built and appended when \<^verbatim>\<open>data.hazards\<close> is an array; on any other
  value \<^verbatim>\<open>forEach\<close> is not a function and the call throws.\<close>

definition render_list :: "json option \<Rightarrow> dom \<Rightarrow> dom" where
  "render_list hazards d =
     (case hazards of
        Some (JArr hs) \<Rightarrow>
          (case render_items hs of
             Inl e \<Rightarrow> recent_catch d
           | Inr lis \<Rightarrow> d\<lparr>hazardResults := hazardResults d @ [Ul ''results-list'' lis]\<rparr>)
      | _ \<Rightarrow> recent_catch d)"

text \<open>The \<^verbatim>\<open>try\<close> statement from the point where the promise of \<^verbatim>\<open>fetch\<close> settles. The
  status of the response is not looked at.\<close>

definition recent_settle :: "(string \<Rightarrow> bool) \<Rightarrow> fetch_result \<Rightarrow> dom \<Rightarrow> dom" where
  "recent_settle positive res d =
     (case res of
        Rejected \<Rightarrow> recent_catch d
      | Resolved r \<Rightarrow>
          (case json_body r of
             None \<Rightarrow> recent_catch d
           | Some data \<Rightarrow>
               (let d1 = d\<lparr>hazardResults := []\<rparr>
                in case get_prop data ''hazards'' of
                     Inl e \<Rightarrow> recent_catch d1
                   | Inr hazards \<Rightarrow>
                       (case has_hazards positive hazards of
                          Inl e \<Rightarrow> recent_catch d1
                        | Inr True \<Rightarrow> render_list hazards d1
                        | Inr False \<Rightarrow>
                            d1\<lparr>hazardResults :=
                                 set_textContent ''No recent hazards for this location.''\<rparr>))))"

definition hazards_request :: "string \<Rightarrow> request" where
  "hazards_request location =
     \<lparr>url = ''/api/hazards?location='' @ encodeURIComponent location, http_method = ''GET'',
      headers = [], body = None\<rparr>"

text \<open>The submit listener of the recent-hazards form, run to its end. An empty string is
  the only falsy string, so \<^verbatim>\<open>!location\<close> is \<open>location = []\<close>.\<close>

definition formRecent_submit :: "(string \<Rightarrow> bool) \<Rightarrow> dom \<Rightarrow> fetch_result \<Rightarrow> run" where
  "formRecent_submit positive d res =
     (let d1 = d\<lparr>hazardResults := set_textContent ''Loading recent hazards...''\<rparr>;
          location = trim (val (check_location d1))
      in if location = []
         then \<lparr>page = d1\<lparr>hazardResults := set_textContent ''Please enter a location.''\<rparr>,
               requests = [], defaultPrevented = True\<rparr>
         else \<lparr>page = recent_settle positive res d1,
               requests = [hazards_request location], defaultPrevented = True\<rparr>)"

section \<open>A page and a response to run the listeners on\<close>

text \<open>Four action buttons, the last one tagged with a name no panel has; the report panel
  shown; a report form filled in, whose rating, user type and checkbox have defaults.\<close>

definition example_page :: dom where
  "example_page =
     \<lparr>actionButtons =
        [\<lparr>classList = [''action-btn'', ''active''], data_section = Some ''report''\<rparr>,
         \<lparr>classList = [''action-btn''], data_section = Some ''recent''\<rparr>,
         \<lparr>classList = [''action-btn''], data_section = Some ''predict''\<rparr>,
         \<lparr>classList = [''action-btn''], data_section = Some ''about''\<rparr>],
      section_report = \<lparr>classList = [''card'', ''active'']\<rparr>,
      section_recent = \<lparr>classList = [''card'']\<rparr>,
      section_predict = \<lparr>classList = [''card'']\<rparr>,
      formReport =
        \<lparr>location_name = \<lparr>val = '' 5th and Main '', defaultValue = []\<rparr>,
         hazard_type = \<lparr>val = ''pothole'', defaultValue = []\<rparr>,
         accessibility = \<lparr>val = ''2'', defaultValue = ''3''\<rparr>,
         user_type = \<lparr>val = ''wheelchair'', defaultValue = ''pedestrian''\<rparr>,
         temporary = \<lparr>checked = False, defaultChecked = True\<rparr>,
         description = \<lparr>val = ''deep, near the kerb'', defaultValue = []\<rparr>\<rparr>,
      submitStatus = \<lparr>classList = [''status''], textContent = []\<rparr>,
      check_location = \<lparr>val = ''Elm St'', defaultValue = []\<rparr>,
      hazardResults = []\<rparr>"

text \<open>A conversion of strings to numbers that reads plain decimal digits only. It stands in
  for the one of the platform in the examples, none of which compares a string with zero.\<close>

definition plain_positive :: "string \<Rightarrow> bool" where
  "plain_positive s =
     (s \<noteq> [] \<and> list_all (\<lambda>c. c \<in> set ''0123456789'') s \<and> \<not> list_all (\<lambda>c. c = CHR ''0'') s)"

definition elm_st_record :: json where
  "elm_st_record =
     JObj [(''day'', JStr ''Mon''), (''timestamp'', JStr ''10:00''),
           (''location_name'', JStr ''Elm St''), (''hazard_type'', JStr ''pothole''),
           (''accessibility'', JNum ''3''), (''user_type'', JStr ''pedestrian'')]"

definition elm_st_response :: response where
  "elm_st_response = \<lparr>status = 200, json_body = Some (JObj [(''hazards'', JArr [elm_st_record])])\<rparr>"

section \<open>Exceptions and conversion to string\<close>


lemma js_error_eq: "(e :: js_error) = TypeError"
  by (cases e) simp

lemma bind_Inr [simp]: "bind (Inr x) f = f x"
  by (simp add: bind_def)

lemma bind_Inl [simp]: "bind (Inl e) f = Inl e"
  by (simp add: bind_def)

lemma bind_eq_Inr: "bind m f = Inr y \<longleftrightarrow> (\<exists>x. m = Inr x \<and> f x = Inr y)"
  by (cases m) simp_all

lemma not_Inr_iff: "(\<forall>x. m \<noteq> Inr x) \<longleftrightarrow> m = Inl TypeError"
  by (cases m) (simp_all add: js_error_eq)

lemma sequence_Inr:
  "(\<exists>xs. sequence ms = Inr xs) \<longleftrightarrow> (\<forall>m\<in>set ms. \<exists>x. m = Inr x)"
proof (induction ms)
  case Nil
  show ?case by simp
next
  case (Cons m ms)
  show ?case
  proof (cases m)
    case (Inl e)
    then show ?thesis by simp
  next
    case (Inr x)
    with Cons.IH show ?thesis
      by (auto simp: bind_eq_Inr)
  qed
qed

lemma ToString_printable: "(\<exists>s. ToString v = Inr s) \<longleftrightarrow> printable v"
proof (induction v)
  case (JArr xs)
  have "(\<exists>s. ToString (JArr xs) = Inr s) \<longleftrightarrow>
      (\<exists>ss. sequence (map (\<lambda>x. if x = JNull then Inr [] else ToString x) xs) = Inr ss)"
    by (simp add: bind_eq_Inr)
  also have "\<dots> \<longleftrightarrow> (\<forall>x\<in>set xs. \<exists>s. (if x = JNull then Inr [] else ToString x) = Inr s)"
    unfolding sequence_Inr by auto
  also have "\<dots> \<longleftrightarrow> (\<forall>x\<in>set xs. printable x)"
    using JArr.IH by (intro ball_cong refl) auto
  finally show ?case
    by (simp add: list_all_iff)
qed simp_all

lemma interpolate_rendered:
  assumes "case v of None \<Rightarrow> True | Some x \<Rightarrow> printable x"
  shows "interpolate v = Inr (rendered v)"
proof (cases v)
  case None
  then show ?thesis by (simp add: rendered_def interpolate_def)
next
  case (Some x)
  with assms have "printable x" by simp
  then obtain s where "ToString x = Inr s"
    using ToString_printable by blast
  with Some show ?thesis by (simp add: rendered_def interpolate_def)
qed

lemma interpolate_throws:
  assumes "\<not> (case v of None \<Rightarrow> True | Some x \<Rightarrow> printable x)"
  shows "interpolate v = Inl TypeError"
proof -
  from assms obtain x where v: "v = Some x" and "\<not> printable x"
    by (cases v) auto
  then have "\<forall>s. ToString x \<noteq> Inr s"
    using ToString_printable by blast
  then show ?thesis
    by (simp add: v interpolate_def not_Inr_iff)
qed

lemma get_prop_record_field: "h \<noteq> JNull \<Longrightarrow> get_prop h name = Inr (record_field h name)"
  by (cases h) (simp_all add: record_field_def)

lemma substitute_record_field:
  "h \<noteq> JNull \<Longrightarrow> substitute h name = interpolate (record_field h name)"
  by (simp add: substitute_def get_prop_record_field)

lemma falsy_printable:
  "\<not> truthy v \<Longrightarrow> (case v of None \<Rightarrow> True | Some x \<Rightarrow> printable x)"
  by (cases v rule: truthy.cases) simp_all


lemma renderable_iff:
  "renderable h \<longleftrightarrow>
     h \<noteq> JNull \<and> field_ok h ''day'' \<and> field_ok h ''timestamp'' \<and> field_ok h ''location_name''
     \<and> field_ok h ''hazard_type'' \<and> field_ok h ''accessibility'' \<and> field_ok h ''user_type''
     \<and> field_ok h ''description''"
  by (simp add: renderable_def shown_fields_def)

lemma substitute_ok:
  "h \<noteq> JNull \<Longrightarrow> field_ok h name \<Longrightarrow> substitute h name = Inr (rendered (record_field h name))"
  by (simp add: substitute_record_field field_ok_def interpolate_rendered)

lemma substitute_Inr_ok:
  assumes "substitute h name = Inr s"
  shows "h \<noteq> JNull \<and> field_ok h name"
proof -
  from assms have h: "h \<noteq> JNull"
    by (auto simp: substitute_def)
  with assms have "interpolate (record_field h name) = Inr s"
    by (simp add: substitute_record_field)
  then have "field_ok h name"
    unfolding field_ok_def using interpolate_throws [of "record_field h name"] by auto
  with h show ?thesis by simp
qed

lemma description_markup_ok:
  assumes "h \<noteq> JNull" and "field_ok h ''description''"
  shows "description_markup h =
     Inr (if truthy (record_field h ''description'')
          then ''<br><em>'' @ rendered (record_field h ''description'') @ ''</em>'' else [])"
  using assms by (simp add: description_markup_def get_prop_record_field substitute_ok)

lemma description_markup_Inr_ok:
  assumes "description_markup h = Inr s"
  shows "h \<noteq> JNull \<and> field_ok h ''description''"
proof -
  from assms have h: "h \<noteq> JNull"
    by (auto simp: description_markup_def)
  show ?thesis
  proof (cases "truthy (record_field h ''description'')")
    case True
    with assms h obtain t where "substitute h ''description'' = Inr t"
      by (auto simp: description_markup_def get_prop_record_field bind_eq_Inr)
    then show ?thesis by (rule substitute_Inr_ok)
  next
    case False
    then have "field_ok h ''description''"
      unfolding field_ok_def by (rule falsy_printable)
    with h show ?thesis by simp
  qed
qed

lemma li_markup_renderable:
  assumes "renderable h"
  shows \<open>li_markup h = Inr
       (''<span class="pill"><span class="dot"></span>'' @ rendered (record_field h ''day'')
          @ '' '' @ bullet @ '' '' @ rendered (record_field h ''timestamp'') @ ''</span><br>''
        @ ''<strong>'' @ rendered (record_field h ''location_name'') @ ''</strong> '' @ en_dash
          @ '' '' @ rendered (record_field h ''hazard_type'') @ '' ''
        @ ''(accessibility: '' @ rendered (record_field h ''accessibility'') @ ''/5, user: ''
          @ rendered (record_field h ''user_type'') @ '')''
        @ (if truthy (record_field h ''description'')
           then ''<br><em>'' @ rendered (record_field h ''description'') @ ''</em>'' else []))\<close>
proof -
  from assms have h: "h \<noteq> JNull" and ok: "field_ok h ''day''" "field_ok h ''timestamp''"
      "field_ok h ''location_name''" "field_ok h ''hazard_type''" "field_ok h ''accessibility''"
      "field_ok h ''user_type''" "field_ok h ''description''"
    by (simp_all add: renderable_iff)
  show ?thesis
    unfolding li_markup_def
    by (simp only: substitute_ok [OF h ok(1)] substitute_ok [OF h ok(2)] substitute_ok [OF h ok(3)]
        substitute_ok [OF h ok(4)] substitute_ok [OF h ok(5)] substitute_ok [OF h ok(6)]
        description_markup_ok [OF h ok(7)] bind_Inr)
qed

lemma li_markup_Inr_renderable:
  assumes "li_markup h = Inr m"
  shows "renderable h"
proof -
  from assms obtain s1 s2 s3 s4 s5 s6 s7 where
    "substitute h ''day'' = Inr s1" "substitute h ''timestamp'' = Inr s2"
    "substitute h ''location_name'' = Inr s3" "substitute h ''hazard_type'' = Inr s4"
    "substitute h ''accessibility'' = Inr s5" "substitute h ''user_type'' = Inr s6"
    "description_markup h = Inr s7"
    unfolding li_markup_def bind_eq_Inr by blast
  then show ?thesis
    unfolding renderable_iff
    using substitute_Inr_ok description_markup_Inr_ok by blast
qed

lemma li_markup_throws: "\<not> renderable h \<Longrightarrow> li_markup h = Inl TypeError"
  using li_markup_Inr_renderable [of h] by (simp add: not_Inr_iff [symmetric]) blast

lemma render_items_renderable:
  assumes "list_all renderable hs"
  shows "\<exists>lis. render_items hs = Inr lis \<and> length lis = length hs
      \<and> (\<forall>i<length hs. li_markup (hs ! i) = Inr (innerHTML (lis ! i)))"
  using assms
proof (induction hs)
  case Nil
  then show ?case by simp
next
  case (Cons h hs)
  from Cons.prems have "renderable h" and "list_all renderable hs" by auto
  from Cons.IH [OF this(2)] obtain lis where
    lis: "render_items hs = Inr lis" "length lis = length hs"
      "\<forall>i<length hs. li_markup (hs ! i) = Inr (innerHTML (lis ! i))"
    by blast
  from li_markup_renderable [OF \<open>renderable h\<close>] obtain m where m: "li_markup h = Inr m"
    by blast
  have "render_items (h # hs) = Inr (Li m # lis)"
    by (simp add: m lis)
  moreover have "\<forall>i<length (h # hs). li_markup ((h # hs) ! i) = Inr (innerHTML ((Li m # lis) ! i))"
    using m lis(3) by (auto simp: nth_Cons split: nat.splits)
  ultimately show ?case using lis(2) by auto
qed

lemma render_items_throws:
  assumes "\<not> list_all renderable hs"
  shows "render_items hs = Inl TypeError"
  using assms
proof (induction hs)
  case Nil
  then show ?case by simp
next
  case (Cons h hs)
  show ?case
  proof (cases "renderable h")
    case False
    then show ?thesis by (simp add: li_markup_throws)
  next
    case True
    with Cons.prems have "\<not> list_all renderable hs" by simp
    then have "render_items hs = Inl TypeError" by (rule Cons.IH)
    moreover from li_markup_renderable [OF True] obtain m where "li_markup h = Inr m"
      by blast
    ultimately show ?thesis by simp
  qed
qed

section \<open>Section switching: what a click leaves active\<close>

lemma has_class_add [simp]: "has_class c (classList_add c e)"
  by (simp add: has_class_def classList_add_def)

lemma has_class_remove [simp]: "\<not> has_class c (classList_remove c e)"
  by (simp add: has_class_def classList_remove_def)

lemma data_section_add [simp]: "data_section (classList_add c b) = data_section b"
  by (simp add: classList_add_def)

lemma data_section_remove [simp]: "data_section (classList_remove c b) = data_section b"
  by (simp add: classList_remove_def)

lemma filter_eq_upt: "i < n \<Longrightarrow> filter (\<lambda>j. j = i) [0..<n] = [i]"
proof (induction n)
  case 0
  then show ?case by simp
next
  case (Suc n)
  show ?case
  proof (cases "i = n")
    case True
    have "filter (\<lambda>j. j = n) [0..<n] = []"
      by (simp add: filter_empty_conv)
    with True show ?thesis by simp
  next
    case False
    with Suc have "i < n" by simp
    with Suc.IH False show ?thesis by simp
  qed
qed

lemma length_click [simp]: "length (actionButtons (click i d)) = length (actionButtons d)"
  by (simp add: click_def Let_def)

lemma click_button:
  assumes "j < length (actionButtons d)" and "i < length (actionButtons d)"
  shows "has_class ''active'' (actionButtons (click i d) ! j) \<longleftrightarrow> j = i"
  using assms by (simp add: click_def Let_def nth_list_update)

lemma active_buttons_click:
  assumes "i < length (actionButtons d)"
  shows "active_buttons (click i d) = [i]"
proof -
  have "active_buttons (click i d) = filter (\<lambda>j. j = i) [0..<length (actionButtons d)]"
    unfolding active_buttons_def using assms
    by (auto intro!: filter_cong simp: click_button)
  with assms show ?thesis by (simp add: filter_eq_upt)
qed

lemma has_class_toggle [simp]:
  "has_class ''active'' (toggle_section target key el) \<longleftrightarrow> Some key = target"
  by (simp add: toggle_section_def)

lemma active_sections_click:
  assumes "i < length (actionButtons d)"
  shows "active_sections (click i d) =
     filter (\<lambda>k. Some k = data_section (actionButtons d ! i)) [''report'', ''recent'', ''predict'']"
  using assms by (simp add: active_sections_def sections_def click_def Let_def)

lemma data_section_click [simp]:
  "j < length (actionButtons d) \<Longrightarrow> data_section (actionButtons (click i d) ! j) = data_section (actionButtons d ! j)"
  by (simp add: click_def Let_def nth_list_update)

text \<open>
  Claim C1. A click on an action button whose \<^verbatim>\<open>data-section\<close> is one of
  \<^verbatim>\<open>report\<close>, \<^verbatim>\<open>recent\<close>, \<^verbatim>\<open>predict\<close> leaves exactly one button with the class
  \<^verbatim>\<open>active\<close>, the clicked one, and exactly one panel with it, the panel the button names.
\<close>

theorem click_known_section:
  assumes "i < length (actionButtons d)"
    and "data_section (actionButtons d ! i) = Some t"
    and "t \<in> {''report'', ''recent'', ''predict''}"
  shows "active_buttons (click i d) = [i]
     \<and> active_sections (click i d) = [t]
     \<and> data_section (actionButtons (click i d) ! i) = Some t"
proof -
  have "active_sections (click i d) = [t]"
    using assms by (auto simp: active_sections_click)
  with assms show ?thesis
    by (simp add: active_buttons_click)
qed

theorem click_known_section_witness:
  "1 < length (actionButtons example_page)
   \<and> data_section (actionButtons example_page ! 1) = Some ''recent''
   \<and> ''recent'' \<in> {''report'', ''recent'', ''predict''}
   \<and> active_buttons (click 1 example_page) = [1]
   \<and> active_sections (click 1 example_page) = [''recent'']
   \<and> data_section (actionButtons (click 1 example_page) ! 1) = Some ''recent''"
  using click_known_section [of 1 example_page "''recent''"]
  by (simp add: example_page_def)

text \<open>
  Claim C10. A click on an action button whose \<^verbatim>\<open>data-section\<close> is none of the three
  panel names (or is missing) takes \<^verbatim>\<open>active\<close> from all three panels, so that no panel
  is shown, and still leaves the clicked button as the only active one.
\<close>

theorem click_unknown_section:
  assumes "i < length (actionButtons d)"
    and "data_section (actionButtons d ! i) \<notin> {Some ''report'', Some ''recent'', Some ''predict''}"
  shows "active_sections (click i d) = [] \<and> active_buttons (click i d) = [i]"
proof -
  have "active_sections (click i d) = []"
    using assms by (auto simp: active_sections_click)
  with assms show ?thesis
    by (simp add: active_buttons_click)
qed

theorem click_unknown_section_witness:
  "3 < length (actionButtons example_page)
   \<and> data_section (actionButtons example_page ! 3)
       \<notin> {Some ''report'', Some ''recent'', Some ''predict''}
   \<and> active_sections example_page = [''report'']
   \<and> active_sections (click 3 example_page) = []
   \<and> active_buttons (click 3 example_page) = [3]"
  using click_unknown_section [of 3 example_page]
  by (simp add: example_page_def active_sections_def sections_def has_class_def)

section \<open>The report form: what a submission leaves behind\<close>

lemma textContent_classList_add [simp]: "textContent (classList_add c e) = textContent e"
  by (simp add: classList_add_def)

lemma report_settle_page:
  "page (formReport_submit d res) = report_settle res (report_pending d)"
  by (simp add: formReport_submit_def Let_def)

lemma formReport_pending [simp]: "formReport (report_pending d) = formReport d"
  by (simp add: report_pending_def)

lemma status_catch [simp]: "textContent (submitStatus (report_catch d)) = network_error_message"
  by (simp add: report_catch_def)

lemma formReport_catch [simp]: "formReport (report_catch d) = formReport d"
  by (simp add: report_catch_def)

lemma server_error_message_neq: "server_error_message err \<noteq> Inr network_error_message"
  by (auto simp: server_error_message_def network_error_message_def bind_eq_Inr)

lemma success_message_neq: "success_message \<noteq> network_error_message"
  by (simp add: success_message_def network_error_message_def)

lemma status_rejected:
  "textContent (submitStatus (report_rejected data d)) =
     (case bind (get_prop data ''error'') server_error_message of
        Inl e \<Rightarrow> network_error_message
      | Inr message \<Rightarrow> message)"
  by (simp add: report_rejected_def split: sum.splits)

text \<open>
  Claim C2 says that every response that is not ok shows an error message made from the
  \<^verbatim>\<open>error\<close> field of the body when the field is present, and the generic
  \<^verbatim>\<open>Failed to submit\<close> message otherwise. Four responses show otherwise. The body is
  parsed before the status is looked at, so a 500 whose body is not JSON ends in the
  \<^verbatim>\<open>catch\<close> block and shows the network-error message; so does a 400 whose body is
  \<^verbatim>\<open>null\<close>, where reading \<^verbatim>\<open>data.error\<close> throws; a 400 with the body
  \<^verbatim>\<open>{"error": ""}\<close> has the field and shows the generic message, the empty string
  being falsy; and a 400 with the body \<^verbatim>\<open>{"error": {"toString": 1}}\<close> has the field
  and shows the network-error message, the concatenation throwing on an object that
  cannot be converted to a string.
\<close>

theorem report_not_ok_counterexample:
  "\<not> ok \<lparr>status = 500, json_body = None\<rparr>
   \<and> textContent (submitStatus (page (formReport_submit example_page
        (Resolved \<lparr>status = 500, json_body = None\<rparr>)))) = ''Network error submitting hazard.''
   \<and> textContent (submitStatus (page (formReport_submit example_page
        (Resolved \<lparr>status = 500, json_body = None\<rparr>)))) \<noteq> ''Error: Failed to submit''
   \<and> \<not> ok \<lparr>status = 400, json_body = Some JNull\<rparr>
   \<and> textContent (submitStatus (page (formReport_submit example_page
        (Resolved \<lparr>status = 400, json_body = Some JNull\<rparr>)))) = ''Network error submitting hazard.''
   \<and> textContent (submitStatus (page (formReport_submit example_page
        (Resolved \<lparr>status = 400, json_body = Some JNull\<rparr>)))) \<noteq> ''Error: Failed to submit''
   \<and> \<not> ok \<lparr>status = 400, json_body = Some (JObj [(''error'', JStr [])])\<rparr>
   \<and> get_prop (JObj [(''error'', JStr [])]) ''error'' = Inr (Some (JStr []))
   \<and> ToString (JStr []) = Inr []
   \<and> textContent (submitStatus (page (formReport_submit example_page
        (Resolved \<lparr>status = 400, json_body = Some (JObj [(''error'', JStr [])])\<rparr>)))) =
       ''Error: Failed to submit''
   \<and> textContent (submitStatus (page (formReport_submit example_page
        (Resolved \<lparr>status = 400, json_body = Some (JObj [(''error'', JStr [])])\<rparr>)))) \<noteq>
       ''Error: '' @ []
   \<and> \<not> ok \<lparr>status = 400,
            json_body = Some (JObj [(''error'', JObj [(''toString'', JNum ''1'')])])\<rparr>
   \<and> get_prop (JObj [(''error'', JObj [(''toString'', JNum ''1'')])]) ''error'' =
       Inr (Some (JObj [(''toString'', JNum ''1'')]))
   \<and> textContent (submitStatus (page (formReport_submit example_page
        (Resolved \<lparr>status = 400,
           json_body = Some (JObj [(''error'', JObj [(''toString'', JNum ''1'')])])\<rparr>)))) =
       ''Network error submitting hazard.''"
  by (simp add: report_settle_page report_settle_def status_rejected ok_def
      network_error_message_def server_error_message_def interpolate_def)

text \<open>
  Claim C2, amended. When the response is not ok and its body parses, the status text is
  \<^verbatim>\<open>Error: Failed to submit\<close> when the \<^verbatim>\<open>error\<close> field of the body is missing or
  falsy, and \<^verbatim>\<open>Error: \<close> followed by the field converted to a string when the field is
  truthy and can be converted; it is the network-error message when the body is
  \<^verbatim>\<open>null\<close> and when the field cannot be converted to a string, that is when it is,
  or holds inside arrays, an object with a property of its own named \<^verbatim>\<open>toString\<close>.
  A 400 with the body \<^verbatim>\<open>{"error": "bad input"}\<close> shows \<^verbatim>\<open>Error: bad input\<close>.
\<close>

theorem report_not_ok_message:
  assumes "\<not> ok r" and "json_body r = Some data"
  shows "textContent (submitStatus (page (formReport_submit d (Resolved r)))) =
     (case get_prop data ''error'' of
        Inl e \<Rightarrow> ''Network error submitting hazard.''
      | Inr None \<Rightarrow> ''Error: Failed to submit''
      | Inr (Some x) \<Rightarrow>
          if \<not> truthy (Some x) then ''Error: Failed to submit''
          else if printable x then ''Error: '' @ rendered (Some x)
          else ''Network error submitting hazard.'')"
proof (cases "get_prop data ''error''")
  case (Inl e)
  with assms show ?thesis
    by (simp add: report_settle_page report_settle_def status_rejected network_error_message_def)
next
  case (Inr err)
  have page: "textContent (submitStatus (page (formReport_submit d (Resolved r)))) =
      (case server_error_message err of Inl e \<Rightarrow> network_error_message | Inr message \<Rightarrow> message)"
    using assms Inr by (simp add: report_settle_page report_settle_def status_rejected)
  show ?thesis
  proof (cases err)
    case None
    with page Inr show ?thesis
      by (simp add: server_error_message_def)
  next
    case (Some x)
    show ?thesis
    proof (cases "truthy (Some x)")
      case False
      with page Inr Some show ?thesis
        by (simp add: server_error_message_def)
    next
      case True
      show ?thesis
      proof (cases "printable x")
        case True
        then have "interpolate (Some x) = Inr (rendered (Some x))"
          by (intro interpolate_rendered) simp
        with page Inr Some \<open>truthy (Some x)\<close> True show ?thesis
          by (simp add: server_error_message_def)
      next
        case False
        then have "interpolate (Some x) = Inl TypeError"
          by (intro interpolate_throws) simp
        with page Inr Some \<open>truthy (Some x)\<close> False show ?thesis
          by (simp add: server_error_message_def network_error_message_def)
      qed
    qed
  qed
qed

theorem report_not_ok_message_witness:
  "\<not> ok \<lparr>status = 400, json_body = Some (JObj [(''error'', JStr ''bad input'')])\<rparr>
   \<and> textContent (submitStatus (page (formReport_submit example_page
        (Resolved \<lparr>status = 400, json_body = Some (JObj [(''error'', JStr ''bad input'')])\<rparr>)))) =
       ''Error: bad input''
   \<and> textContent (submitStatus (page (formReport_submit example_page
        (Resolved \<lparr>status = 500, json_body = Some (JObj [(''error'', JNum ''1e+21'')])\<rparr>)))) =
       ''Error: 1e+21''"
  using report_not_ok_message
    [of "\<lparr>status = 400, json_body = Some (JObj [(''error'', JStr ''bad input'')])\<rparr>"
        "JObj [(''error'', JStr ''bad input'')]" example_page]
    report_not_ok_message
    [of "\<lparr>status = 500, json_body = Some (JObj [(''error'', JNum ''1e+21'')])\<rparr>"
        "JObj [(''error'', JNum ''1e+21'')]" example_page]
  by (simp add: ok_def rendered_def interpolate_def)

text \<open>
  Claim C3. When the response is ok and its body parses, the status text is the success
  message, every field of the form is back at its default, and the \<^verbatim>\<open>temporary\<close>
  checkbox is checked.
\<close>

theorem report_ok_resets:
  assumes "ok r" and "json_body r = Some data"
  shows "textContent (submitStatus (page (formReport_submit d (Resolved r)))) =
       ''Thank you! Your report has been saved and will help train the model.''
     \<and> val (location_name (formReport (page (formReport_submit d (Resolved r))))) =
         defaultValue (location_name (formReport d))
     \<and> val (hazard_type (formReport (page (formReport_submit d (Resolved r))))) =
         defaultValue (hazard_type (formReport d))
     \<and> val (accessibility (formReport (page (formReport_submit d (Resolved r))))) =
         defaultValue (accessibility (formReport d))
     \<and> val (user_type (formReport (page (formReport_submit d (Resolved r))))) =
         defaultValue (user_type (formReport d))
     \<and> val (description (formReport (page (formReport_submit d (Resolved r))))) =
         defaultValue (description (formReport d))
     \<and> checked (temporary (formReport (page (formReport_submit d (Resolved r))))) = True"
  using assms
  by (simp add: report_settle_page report_settle_def report_success_def Let_def
      success_message_def reset_def reset_field_def)

theorem report_ok_resets_witness:
  "ok \<lparr>status = 201, json_body = Some (JObj [(''id'', JNum ''7'')])\<rparr>
   \<and> formReport (page (formReport_submit example_page
        (Resolved \<lparr>status = 201, json_body = Some (JObj [(''id'', JNum ''7'')])\<rparr>))) =
       \<lparr>location_name = \<lparr>val = [], defaultValue = []\<rparr>,
        hazard_type = \<lparr>val = [], defaultValue = []\<rparr>,
        accessibility = \<lparr>val = ''3'', defaultValue = ''3''\<rparr>,
        user_type = \<lparr>val = ''pedestrian'', defaultValue = ''pedestrian''\<rparr>,
        temporary = \<lparr>checked = True, defaultChecked = True\<rparr>,
        description = \<lparr>val = [], defaultValue = []\<rparr>\<rparr>
   \<and> textContent (submitStatus (page (formReport_submit example_page
        (Resolved \<lparr>status = 201, json_body = Some (JObj [(''id'', JNum ''7'')])\<rparr>)))) =
       ''Thank you! Your report has been saved and will help train the model.''"
  using report_ok_resets
    [of "\<lparr>status = 201, json_body = Some (JObj [(''id'', JNum ''7'')])\<rparr>"
        "JObj [(''id'', JNum ''7'')]" example_page]
  by (simp add: ok_def report_settle_page report_settle_def report_success_def Let_def
      reset_def reset_field_def reset_checkbox_def example_page_def success_message_def)

text \<open>
  Claim C4. When \<^verbatim>\<open>fetch\<close> rejects, the status text is the network-error message. The
  server-error message, the text \<^verbatim>\<open>"Error: " + (data.error || "Failed to submit")\<close> of
  the branch for a response that is not ok, is never equal to it, whatever
  \<^verbatim>\<open>data.error\<close> is.
\<close>

theorem report_fetch_rejected:
  "textContent (submitStatus (page (formReport_submit d Rejected))) =
       ''Network error submitting hazard.''
   \<and> (\<forall>err. server_error_message err \<noteq>
         Inr (textContent (submitStatus (page (formReport_submit d Rejected)))))"
  by (simp add: report_settle_page report_settle_def server_error_message_neq)
    (simp add: network_error_message_def)

text \<open>
  Claim C8. Whatever the network does, one request is sent: a POST to \<^verbatim>\<open>/api/report\<close>
  whose body is the JSON text of an object with the six keys \<^verbatim>\<open>location_name\<close>,
  \<^verbatim>\<open>hazard_type\<close>, \<^verbatim>\<open>accessibility\<close>, \<^verbatim>\<open>user_type\<close>, \<^verbatim>\<open>temporary\<close>,
  \<^verbatim>\<open>description\<close>, in this order, built from the values the fields have at submission:
  \<^verbatim>\<open>temporary\<close> is the boolean state of the checkbox, the other five are strings.
\<close>

theorem report_payload_shape:
  \<open>requests (formReport_submit d res) =
       [\<lparr>url = ''/api/report'', http_method = ''POST'',
         headers = [(''Content-Type'', ''application/json'')],
         body = Some (JSON_stringify (payload d))\<rparr>]
   \<and> payload d =
       JObj [(''location_name'', JStr (trim (val (location_name (formReport d))))),
             (''hazard_type'', JStr (trim (val (hazard_type (formReport d))))),
             (''accessibility'', JStr (val (accessibility (formReport d)))),
             (''user_type'', JStr (val (user_type (formReport d)))),
             (''temporary'', JBool (checked (temporary (formReport d)))),
             (''description'', JStr (trim (val (description (formReport d)))))]
   \<and> JSON_stringify (payload d) =
       ''{"location_name":'' @ quote (trim (val (location_name (formReport d))))
       @ '',"hazard_type":'' @ quote (trim (val (hazard_type (formReport d))))
       @ '',"accessibility":'' @ quote (val (accessibility (formReport d)))
       @ '',"user_type":'' @ quote (val (user_type (formReport d)))
       @ '',"temporary":'' @ (if checked (temporary (formReport d)) then ''true'' else ''false'')
       @ '',"description":'' @ quote (trim (val (description (formReport d)))) @ ''}''\<close>
proof -
  have "payload (report_pending d) = payload d"
    by (simp add: payload_def)
  then have "requests (formReport_submit d res) =
       [\<lparr>url = ''/api/report'', http_method = ''POST'',
         headers = [(''Content-Type'', ''application/json'')],
         body = Some (JSON_stringify (payload d))\<rparr>]"
    by (simp add: formReport_submit_def Let_def report_request_def)
  moreover have \<open>JSON_stringify (payload d) =
       ''{"location_name":'' @ quote (trim (val (location_name (formReport d))))
       @ '',"hazard_type":'' @ quote (trim (val (hazard_type (formReport d))))
       @ '',"accessibility":'' @ quote (val (accessibility (formReport d)))
       @ '',"user_type":'' @ quote (val (user_type (formReport d)))
       @ '',"temporary":'' @ (if checked (temporary (formReport d)) then ''true'' else ''false'')
       @ '',"description":'' @ quote (trim (val (description (formReport d)))) @ ''}''\<close>
    by (simp add: payload_def quote_def json_escape_def)
  ultimately show ?thesis
    by (simp add: payload_def)
qed

theorem report_payload_shape_witness:
  \<open>requests (formReport_submit example_page Rejected) =
     [\<lparr>url = ''/api/report'', http_method = ''POST'',
       headers = [(''Content-Type'', ''application/json'')],
       body = Some (''{"location_name":"5th and Main","hazard_type":"pothole",''
                  @ ''"accessibility":"2","user_type":"wheelchair","temporary":false,''
                  @ ''"description":"deep, near the kerb"}'')\<rparr>]\<close>
proof -
  have "trim '' 5th and Main '' = ''5th and Main''"
    and "trim ''pothole'' = ''pothole''"
    and "trim ''deep, near the kerb'' = ''deep, near the kerb''"
    by (simp_all add: trim_def trimStart_def trimEnd_def js_whitespace_def)
  with report_payload_shape [of example_page Rejected] show ?thesis
    by (simp add: example_page_def quote_def json_escape_def)
qed

text \<open>
  Claim C9. The body is parsed before the status is looked at: when \<^verbatim>\<open>fetch\<close> resolves,
  with any status, and the body is not JSON, the listener ends in its \<^verbatim>\<open>catch\<close> block.
  The status text is the network-error message, which is neither the success message nor a
  text of the branch for a response that is not ok; the form is as it was, neither reset
  nor re-checked; and the status line does not get the class \<^verbatim>\<open>success\<close>.
\<close>

theorem report_unparseable_body:
  assumes "json_body r = None"
  shows "textContent (submitStatus (page (formReport_submit d (Resolved r)))) =
       ''Network error submitting hazard.''
     \<and> textContent (submitStatus (page (formReport_submit d (Resolved r)))) \<noteq> success_message
     \<and> (\<forall>err. server_error_message err \<noteq>
           Inr (textContent (submitStatus (page (formReport_submit d (Resolved r))))))
     \<and> formReport (page (formReport_submit d (Resolved r))) = formReport d
     \<and> \<not> has_class ''success'' (submitStatus (page (formReport_submit d (Resolved r))))"
proof -
  have p: "page (formReport_submit d (Resolved r)) = report_catch (report_pending d)"
    using assms by (simp add: report_settle_page report_settle_def)
  have "\<not> has_class ''success'' (submitStatus (report_catch (report_pending d)))"
    by (simp add: report_catch_def report_pending_def has_class_def classList_add_def)
  moreover have "network_error_message = ''Network error submitting hazard.''"
    by (simp add: network_error_message_def)
  ultimately show ?thesis
    unfolding p using server_error_message_neq success_message_neq
    by (simp add: eq_commute)
qed

theorem report_unparseable_body_witness:
  "json_body \<lparr>status = 200, json_body = None\<rparr> = None
   \<and> json_body \<lparr>status = 502, json_body = None\<rparr> = None
   \<and> submitStatus (page (formReport_submit example_page
        (Resolved \<lparr>status = 200, json_body = None\<rparr>))) =
       \<lparr>classList = [''status'', ''error''], textContent = ''Network error submitting hazard.''\<rparr>
   \<and> formReport (page (formReport_submit example_page
        (Resolved \<lparr>status = 200, json_body = None\<rparr>))) = formReport example_page
   \<and> textContent (submitStatus (page (formReport_submit example_page
        (Resolved \<lparr>status = 502, json_body = None\<rparr>)))) = ''Network error submitting hazard.''"
  using report_unparseable_body [of "\<lparr>status = 200, json_body = None\<rparr>" example_page]
    report_unparseable_body [of "\<lparr>status = 502, json_body = None\<rparr>" example_page]
  by (simp add: report_settle_page report_settle_def report_catch_def report_pending_def
      classList_add_def network_error_message_def example_page_def)

section \<open>The recent-hazards form: what a submission leaves behind\<close>

lemma recent_empty_page:
  "trim (val (check_location d)) = [] \<Longrightarrow>
   formRecent_submit positive d res =
     \<lparr>page = d\<lparr>hazardResults := set_textContent ''Please enter a location.''\<rparr>,
      requests = [], defaultPrevented = True\<rparr>"
  by (simp add: formRecent_submit_def Let_def)

lemma recent_settle_page:
  "trim (val (check_location d)) \<noteq> [] \<Longrightarrow>
   page (formRecent_submit positive d res) =
     recent_settle positive res (d\<lparr>hazardResults := set_textContent ''Loading recent hazards...''\<rparr>)"
  by (simp add: formRecent_submit_def Let_def)

lemma example_location: "trim (val (check_location example_page)) \<noteq> []"
  by (simp add: example_page_def trim_def trimStart_def trimEnd_def js_whitespace_def)

text \<open>
  Claim C5. When the location field trims to the empty string, the results region ends up
  showing the prompt and no request is sent, whatever the network would have answered.
\<close>

theorem recent_empty_location:
  assumes "trim (val (check_location d)) = []"
  shows "hazardResults (page (formRecent_submit positive d res)) =
       [TextNode ''Please enter a location.'']
     \<and> requests (formRecent_submit positive d res) = []"
  using assms by (simp add: recent_empty_page set_textContent_def)

theorem recent_empty_location_witness:
  "trim (val (check_location (example_page\<lparr>check_location := \<lparr>val = ''   '', defaultValue = []\<rparr>\<rparr>))) = []
   \<and> hazardResults (page (formRecent_submit plain_positive
        (example_page\<lparr>check_location := \<lparr>val = ''   '', defaultValue = []\<rparr>\<rparr>)
        (Resolved elm_st_response))) = [TextNode ''Please enter a location.'']
   \<and> requests (formRecent_submit plain_positive
        (example_page\<lparr>check_location := \<lparr>val = ''   '', defaultValue = []\<rparr>\<rparr>)
        (Resolved elm_st_response)) = []"
proof -
  have h: "trim (val (check_location (example_page\<lparr>check_location := \<lparr>val = ''   '', defaultValue = []\<rparr>\<rparr>))) = []"
    by (simp add: trim_def trimStart_def trimEnd_def js_whitespace_def)
  from recent_empty_location [OF h] h show ?thesis by simp
qed

subsection \<open>The length of an array is above zero when the array is not empty\<close>

lemma show_nat_digits: "show_nat n \<noteq> [] \<and> set (show_nat n) \<subseteq> set ''0123456789''"
proof (induction n rule: show_nat.induct)
  case (1 n)
  have digit: "''0123456789'' ! k \<in> set ''0123456789''" if "k < 10" for k
    using that by (intro nth_mem) simp
  show ?case
  proof (cases "n < 10")
    case True
    with digit [of n] show ?thesis
      by (subst (1 2) show_nat.simps) simp
  next
    case False
    with 1 digit [of "n mod 10"] show ?thesis
      by (subst (1 2) show_nat.simps) simp
  qed
qed

lemma show_nat_zero: "show_nat n = ''0'' \<longleftrightarrow> n = 0"
proof (cases "n < 10")
  case True
  have "distinct ''0123456789''" by simp
  then have "''0123456789'' ! n = ''0123456789'' ! 0 \<longleftrightarrow> n = 0"
    using True by (subst nth_eq_iff_index_eq) simp_all
  with True show ?thesis
    by (subst show_nat.simps) simp
next
  case False
  have "show_nat (n div 10) \<noteq> []"
    using show_nat_digits by blast
  then have "length (show_nat (n div 10) @ [''0123456789'' ! (n mod 10)]) \<noteq> length ''0''"
    by (cases "show_nat (n div 10)") simp_all
  then have "show_nat (n div 10) @ [''0123456789'' ! (n mod 10)] \<noteq> ''0''"
    by metis
  with False show ?thesis
    by (subst show_nat.simps) simp
qed

lemma greater_zero_length:
  "greater_zero positive (Some (JNum (show_nat n))) = Inr (0 < n)"
proof -
  have digits: "set (show_nat n) \<subseteq> set ''0123456789''" and "show_nat n \<noteq> []"
    using show_nat_digits by blast+
  then have "show_nat n \<noteq> ''NaN''"
    by auto
  moreover have "\<not> prefix ''-'' (show_nat n)"
  proof
    assume "prefix ''-'' (show_nat n)"
    then have "CHR ''-'' \<in> set (show_nat n)"
      by (auto simp: prefix_def)
    with digits show False by auto
  qed
  ultimately show ?thesis
    by (simp add: show_nat_zero)
qed

lemma has_hazards_array:
  "has_hazards positive (Some (JArr hs)) = Inr (hs \<noteq> [])"
  by (simp add: has_hazards_def greater_zero_length del: greater_zero.simps)



lemma recent_settle_array:
  assumes "json_body r = Some data" and "get_prop data ''hazards'' = Inr (Some (JArr hs))"
    and "hs \<noteq> []"
  shows "hazardResults (recent_settle positive (Resolved r) d) =
     (case render_items hs of
        Inl e \<Rightarrow> [TextNode ''Error fetching hazards.'']
      | Inr lis \<Rightarrow> [Ul ''results-list'' lis])"
  using assms
  by (simp add: recent_settle_def Let_def has_hazards_array render_list_def recent_catch_def
      set_textContent_def split: sum.splits)

subsection \<open>What an item contains\<close>

lemma sublist_left: "sublist x c \<Longrightarrow> sublist x (p @ c)"
  by (meson sublist_append_leftI sublist_order.order_trans)

lemma sublist_4: "sublist x (a @ b @ c @ x @ d)"
  using sublist_appendI [of x "a @ b @ c" d] by simp

lemma li_markup_contains:
  assumes "renderable h"
  shows "\<exists>m. li_markup h = Inr m
    \<and> sublist (rendered (record_field h ''day'')) m
    \<and> sublist (rendered (record_field h ''timestamp'')) m
    \<and> sublist (rendered (record_field h ''location_name'')) m
    \<and> sublist (rendered (record_field h ''hazard_type'')) m
    \<and> sublist (rendered (record_field h ''accessibility'')) m
    \<and> sublist (rendered (record_field h ''user_type'')) m
    \<and> (truthy (record_field h ''description'') \<longrightarrow>
           sublist (''<br><em>'' @ rendered (record_field h ''description'') @ ''</em>'') m)"
proof -
  let ?p1 = \<open>''<span class="pill"><span class="dot"></span>''\<close>
  let ?day = "rendered (record_field h ''day'')"
  let ?ts = "rendered (record_field h ''timestamp'')"
  let ?loc = "rendered (record_field h ''location_name'')"
  let ?ty = "rendered (record_field h ''hazard_type'')"
  let ?acc = "rendered (record_field h ''accessibility'')"
  let ?usr = "rendered (record_field h ''user_type'')"
  let ?d = "if truthy (record_field h ''description'')
      then ''<br><em>'' @ rendered (record_field h ''description'') @ ''</em>'' else []"
  let ?t6 = "'')'' @ ?d"
  let ?t5 = "''/5, user: '' @ ?usr @ ?t6"
  let ?t4 = "'' '' @ ''(accessibility: '' @ ?acc @ ?t5"
  let ?t3 = "''</strong> '' @ en_dash @ '' '' @ ?ty @ ?t4"
  let ?t2 = "''</span><br>'' @ ''<strong>'' @ ?loc @ ?t3"
  let ?t1 = "'' '' @ bullet @ '' '' @ ?ts @ ?t2"
  let ?m = "?p1 @ ?day @ ?t1"
  have m: "li_markup h = Inr ?m"
    by (simp only: li_markup_renderable [OF assms] append_assoc)
  have s1: "sublist ?ts ?t1" by (rule sublist_4)
  have s2: "sublist ?loc ?t2"
    using sublist_appendI [of ?loc "''</span><br>'' @ ''<strong>''" ?t3] by (simp only: append_assoc)
  have s3: "sublist ?ty ?t3" by (rule sublist_4)
  have s4: "sublist ?acc ?t4"
    using sublist_appendI [of ?acc "'' '' @ ''(accessibility: ''" ?t5] by (simp only: append_assoc)
  have s5: "sublist ?usr ?t5" by (rule sublist_appendI)
  have u1: "sublist x ?t1 \<Longrightarrow> sublist x ?m" for x
    using sublist_left [of x ?t1 "?p1 @ ?day"] by (simp only: append_assoc)
  have u2: "sublist x ?t2 \<Longrightarrow> sublist x ?t1" for x
    using sublist_left [of x ?t2 "'' '' @ bullet @ '' '' @ ?ts"] by (simp only: append_assoc)
  have u3: "sublist x ?t3 \<Longrightarrow> sublist x ?t2" for x
    using sublist_left [of x ?t3 "''</span><br>'' @ ''<strong>'' @ ?loc"] by (simp only: append_assoc)
  have u4: "sublist x ?t4 \<Longrightarrow> sublist x ?t3" for x
    using sublist_left [of x ?t4 "''</strong> '' @ en_dash @ '' '' @ ?ty"] by (simp only: append_assoc)
  have u5: "sublist x ?t5 \<Longrightarrow> sublist x ?t4" for x
    using sublist_left [of x ?t5 "'' '' @ ''(accessibility: '' @ ?acc"] by (simp only: append_assoc)
  have u6: "sublist x ?t6 \<Longrightarrow> sublist x ?t5" for x
    using sublist_left [of x ?t6 "''/5, user: '' @ ?usr"] by (simp only: append_assoc)
  have s6: "truthy (record_field h ''description'') \<longrightarrow>
      sublist (''<br><em>'' @ rendered (record_field h ''description'') @ ''</em>'') ?m"
  proof
    assume t: "truthy (record_field h ''description'')"
    have "sublist ?d ?t6" by (rule sublist_append_leftI)
    then have "sublist ?d ?m" by (intro u1 u2 u3 u4 u5 u6)
    with t show "sublist (''<br><em>'' @ rendered (record_field h ''description'') @ ''</em>'') ?m"
      by simp
  qed
  have "sublist ?day ?m" by (rule sublist_appendI)
  moreover have "sublist ?ts ?m" by (rule u1 [OF s1])
  moreover have "sublist ?loc ?m" by (rule u1 [OF u2 [OF s2]])
  moreover have "sublist ?ty ?m" by (rule u1 [OF u2 [OF u3 [OF s3]]])
  moreover have "sublist ?acc ?m" by (rule u1 [OF u2 [OF u3 [OF u4 [OF s4]]]])
  moreover have "sublist ?usr ?m" by (rule u1 [OF u2 [OF u3 [OF u4 [OF u5 [OF s5]]]]])
  ultimately show ?thesis using m s6 by blast
qed

lemma field_ok_interpolate:
  "field_ok h name \<Longrightarrow> interpolate (record_field h name) = Inr (rendered (record_field h name))"
  unfolding field_ok_def by (rule interpolate_rendered)





lemma has_hazards_none: "has_hazards positive None = Inr False"
  by (simp add: has_hazards_def)

text \<open>
  Claim C7 says that every parsed body without a \<^verbatim>\<open>hazards\<close> field gets the
  no-hazards message. The body \<^verbatim>\<open>null\<close> is parsed JSON and has no such field, but
  reading \<^verbatim>\<open>data.hazards\<close> from it throws, and the \<^verbatim>\<open>catch\<close> block leaves the
  region with the fetch-error text.
\<close>

theorem recent_no_hazards_counterexample:
  "json_body \<lparr>status = 200, json_body = Some JNull\<rparr> = Some JNull
   \<and> record_field JNull ''hazards'' = None
   \<and> get_prop JNull ''hazards'' = Inl TypeError
   \<and> hazardResults (page (formRecent_submit plain_positive example_page
        (Resolved \<lparr>status = 200, json_body = Some JNull\<rparr>))) =
       [TextNode ''Error fetching hazards.'']
   \<and> hazardResults (page (formRecent_submit plain_positive example_page
        (Resolved \<lparr>status = 200, json_body = Some JNull\<rparr>))) \<noteq>
       [TextNode ''No recent hazards for this location.'']"
  by (simp add: recent_settle_page [OF example_location] recent_settle_def Let_def
      recent_catch_def set_textContent_def record_field_def)

text \<open>
  Claim C7, amended. When the body of the response is not \<^verbatim>\<open>null\<close> and has no
  \<^verbatim>\<open>hazards\<close> field or an empty \<^verbatim>\<open>hazards\<close> array, the results region holds the
  text \<^verbatim>\<open>No recent hazards for this location.\<close> and nothing else, so no list.
\<close>

theorem recent_no_hazards:
  assumes "trim (val (check_location d)) \<noteq> []"
    and "json_body r = Some data"
    and "data \<noteq> JNull"
    and "record_field data ''hazards'' = None \<or> record_field data ''hazards'' = Some (JArr [])"
  shows "hazardResults (page (formRecent_submit positive d (Resolved r))) =
       [TextNode ''No recent hazards for this location.'']"
proof -
  from assms(3) have read: "get_prop data ''hazards'' = Inr (record_field data ''hazards'')"
    by (rule get_prop_record_field)
  have "has_hazards positive (record_field data ''hazards'') = Inr False"
    using assms(4) by (auto simp: has_hazards_none has_hazards_array)
  with assms(2) read show ?thesis
    by (simp add: recent_settle_page [OF assms(1)] recent_settle_def Let_def set_textContent_def)
qed

theorem recent_no_hazards_witness:
  "trim (val (check_location example_page)) \<noteq> []
   \<and> JObj [(''count'', JNum ''0'')] \<noteq> JNull
   \<and> record_field (JObj [(''count'', JNum ''0'')]) ''hazards'' = None
   \<and> record_field (JObj [(''hazards'', JArr [])]) ''hazards'' = Some (JArr [])
   \<and> hazardResults (page (formRecent_submit plain_positive example_page
        (Resolved \<lparr>status = 200, json_body = Some (JObj [(''count'', JNum ''0'')])\<rparr>))) =
       [TextNode ''No recent hazards for this location.'']
   \<and> hazardResults (page (formRecent_submit plain_positive example_page
        (Resolved \<lparr>status = 200, json_body = Some (JObj [(''hazards'', JArr [])])\<rparr>))) =
       [TextNode ''No recent hazards for this location.'']"
proof -
  have "hazardResults (page (formRecent_submit plain_positive example_page
        (Resolved \<lparr>status = 200, json_body = Some (JObj [(''count'', JNum ''0'')])\<rparr>))) =
       [TextNode ''No recent hazards for this location.'']"
    by (rule recent_no_hazards [OF example_location, where data = "JObj [(''count'', JNum ''0'')]"])
      (simp_all add: record_field_def)
  moreover have "hazardResults (page (formRecent_submit plain_positive example_page
        (Resolved \<lparr>status = 200, json_body = Some (JObj [(''hazards'', JArr [])])\<rparr>))) =
       [TextNode ''No recent hazards for this location.'']"
    by (rule recent_no_hazards [OF example_location, where data = "JObj [(''hazards'', JArr [])]"])
      (simp_all add: record_field_def)
  ultimately show ?thesis
    using example_location by (simp add: record_field_def)
qed

end
